theory Spec2Isabelle
  imports Main
begin

section \<open>Python values and errors\<close>

text \<open>
  The transformer of \<^verbatim>\<open>src/transform.py\<close> turns the JSON text of the metrics-server
  into Prometheus exposition text. Its four functions \<^verbatim>\<open>json2dict\<close>, \<^verbatim>\<open>val2base\<close>,
  \<^verbatim>\<open>trans_node_metrics\<close> and \<^verbatim>\<open>trans_pod_metrics\<close> are embedded here, together with
  the parts of the Python runtime they call (\<^verbatim>\<open>json.loads\<close>, \<^verbatim>\<open>re.search\<close>, \<^verbatim>\<open>int\<close>,
  \<^verbatim>\<open>dict.get\<close>, iteration, \<^verbatim>\<open>str.format\<close>, \<^verbatim>\<open>str.join\<close>).

  Alphabet. A Python string is a \<open>string\<close>: the characters are the code points below
  256, one \<open>char\<close> each. Texts with code points from 256 on are outside the model.

  Errors. An exception is a value of \<open>pyerr\<close>; a computation that may raise returns
  \<open>pyerr + 'a\<close>, with \<open>Inl\<close> for the exception.
\<close>

datatype pyerr = ValueError | AttributeError | TypeError | IndexError

text \<open>
  The objects \<^verbatim>\<open>json.loads\<close> builds: \<^verbatim>\<open>None\<close>, \<^verbatim>\<open>bool\<close>, \<^verbatim>\<open>int\<close> (unbounded),
  \<^verbatim>\<open>float\<close>, \<^verbatim>\<open>str\<close>, \<^verbatim>\<open>list\<close> and \<^verbatim>\<open>dict\<close> (keys in insertion order, no key
  twice). A float is identified by its \<^verbatim>\<open>repr\<close>, the text Python prints for it.
\<close>

datatype json =
    JNull
  | JBool bool
  | JInt int
  | JFloat string
  | JStr string
  | JArr "json list"
  | JObj "(string \<times> json) list"

text \<open>Sequencing of computations that may raise: the first exception wins.\<close>

definition bind_err :: "pyerr + 'a \<Rightarrow> ('a \<Rightarrow> pyerr + 'b) \<Rightarrow> pyerr + 'b" where
  "bind_err m f = (case m of Inl e \<Rightarrow> Inl e | Inr x \<Rightarrow> f x)"

section \<open>Regular expressions, as \<^verbatim>\<open>val2base\<close> uses them\<close>

text \<open>
  The five patterns of \<^verbatim>\<open>val2base\<close> are sequences of four kinds of items: \<^verbatim>\<open>^\<close>, \<^verbatim>\<open>$\<close>,
  a literal character, and the capturing group \<^verbatim>\<open>([0-9]+)\<close>.
\<close>

datatype re_item = Bol | Eol | Lit char | Grp_digits

text \<open>Lower case on the code points below 256, as \<^verbatim>\<open>re.IGNORECASE\<close> compares literals.\<close>

definition py_lower :: "char \<Rightarrow> char" where
  "py_lower c =
     (let n = (of_char c :: nat)
      in if (65 \<le> n \<and> n \<le> 90) \<or> (192 \<le> n \<and> n \<le> 222 \<and> n \<noteq> 215)
         then char_of (n + 32) else c)"

definition is_digit :: "char \<Rightarrow> bool" where
  "is_digit c = (48 \<le> (of_char c :: nat) \<and> (of_char c :: nat) \<le> 57)"

definition lit_matches :: "bool \<Rightarrow> char \<Rightarrow> char \<Rightarrow> bool" where
  "lit_matches ic p c = (if ic then py_lower p = py_lower c else p = c)"

fun first_some :: "('a \<Rightarrow> 'b option) \<Rightarrow> 'a list \<Rightarrow> 'b option" where
  "first_some f [] = None"
| "first_some f (x # xs) = (case f x of Some r \<Rightarrow> Some r | None \<Rightarrow> first_some f xs)"

text \<open>
  \<open>match_here ic items at_start s\<close> matches the items against a prefix of the rest \<open>s\<close>
  of the subject and returns the captured groups, in order. \<open>at_start\<close> says that \<open>s\<close> is
  the whole subject. Without \<^verbatim>\<open>re.MULTILINE\<close>, \<^verbatim>\<open>^\<close> matches at the start of the subject
  only, and \<^verbatim>\<open>$\<close> at its end or before a line feed that ends it. The group is greedy
  and backtracks: the longest run of digits first, then shorter ones.
\<close>

primrec match_here :: "bool \<Rightarrow> re_item list \<Rightarrow> bool \<Rightarrow> string \<Rightarrow> string list option" where
  "match_here ic [] = (\<lambda>at_start s. Some [])"
| "match_here ic (it # rest) = (\<lambda>at_start s.
     case it of
       Bol \<Rightarrow> if at_start then match_here ic rest at_start s else None
     | Eol \<Rightarrow> if s = [] \<or> s = [CHR 0x0A] then match_here ic rest at_start s else None
     | Lit p \<Rightarrow>
         (case s of
            [] \<Rightarrow> None
          | c # cs \<Rightarrow> if lit_matches ic p c then match_here ic rest False cs else None)
     | Grp_digits \<Rightarrow>
         first_some
           (\<lambda>k. map_option (\<lambda>gs. take k s # gs) (match_here ic rest False (drop k s)))
           (rev [1 ..< Suc (length (takeWhile is_digit s))]))"

text \<open>\<^verbatim>\<open>re.search\<close>: the first start position, from the left, at which the pattern matches.\<close>

definition re_search :: "re_item list \<Rightarrow> string \<Rightarrow> bool \<Rightarrow> string list option" where
  "re_search pat s ic =
     first_some (\<lambda>i. match_here ic pat (i = 0) (drop i s)) [0 ..< Suc (length s)]"

text \<open>\<^verbatim>\<open>Match.group(i)\<close> for \<open>i \<ge> 1\<close>; a group the pattern does not have is an IndexError.\<close>

definition group :: "string list \<Rightarrow> nat \<Rightarrow> pyerr + string" where
  "group m i = (if 1 \<le> i \<and> i \<le> length m then Inr (m ! (i - 1)) else Inl IndexError)"

text \<open>
  \<^verbatim>\<open>int(s)\<close> on a run of decimal digits. \<^verbatim>\<open>val2base\<close> passes it captured groups only;
  any other text is answered with ValueError.
\<close>

definition digit_val :: "char \<Rightarrow> int" where
  "digit_val c = int (of_char c) - 48"

definition dec_val :: "string \<Rightarrow> int" where
  "dec_val s = foldl (\<lambda>a c. 10 * a + digit_val c) 0 s"

definition py_int :: "string \<Rightarrow> pyerr + int" where
  "py_int s = (if s \<noteq> [] \<and> list_all is_digit s then Inr (dec_val s) else Inl ValueError)"

text \<open>\<^verbatim>\<open>a + b\<close> on an int and another object: defined between ints, a TypeError with a str.\<close>

fun py_add_int :: "int \<Rightarrow> json \<Rightarrow> pyerr + json" where
  "py_add_int a (JInt b) = Inr (JInt (a + b))"
| "py_add_int a (JBool b) = Inr (JInt (a + (if b then 1 else 0)))"
| "py_add_int a _ = Inl TypeError"

section \<open>\<^verbatim>\<open>val2base\<close>\<close>

definition pat_Ki :: "re_item list" where
  "pat_Ki = [Bol, Grp_digits, Lit CHR ''K'', Lit CHR ''i'', Eol]"

definition pat_Mi :: "re_item list" where
  "pat_Mi = [Bol, Grp_digits, Lit CHR ''M'', Lit CHR ''i'', Eol]"

definition pat_Gi :: "re_item list" where
  "pat_Gi = [Bol, Grp_digits, Lit CHR ''G'', Lit CHR ''i'', Eol]"

definition pat_ms :: "re_item list" where
  "pat_ms = [Bol, Grp_digits, Lit CHR ''m'', Grp_digits, Lit CHR ''s'', Eol]"

definition pat_m :: "re_item list" where
  "pat_m = [Bol, Grp_digits, Lit CHR ''m'', Eol]"

text \<open>
  \<^verbatim>\<open>if val and val.group(i)\<close>: a match object is true, a captured group is true when it
  is not empty.
\<close>

definition group_true :: "string list \<Rightarrow> nat \<Rightarrow> pyerr + bool" where
  "group_true m i = bind_err (group m i) (\<lambda>g. Inr (g \<noteq> []))"

text \<open>
  One branch of \<^verbatim>\<open>val2base\<close> with a single group:
  \<^verbatim>\<open>val = re.search(pat, string, re.IGNORECASE); if val and val.group(1): return int(val.group(1)) * k\<close>,
  and \<open>otherwise\<close> when the condition is false.
\<close>

definition scaled :: "re_item list \<Rightarrow> int \<Rightarrow> string \<Rightarrow> (pyerr + json) \<Rightarrow> pyerr + json" where
  "scaled pat k s otherwise =
     (case re_search pat s True of
        None \<Rightarrow> otherwise
      | Some val \<Rightarrow>
          bind_err (group_true val 1) (\<lambda>t.
            if t then
              bind_err (group val 1) (\<lambda>g. bind_err (py_int g) (\<lambda>n. Inr (JInt (n * k))))
            else otherwise))"

text \<open>
  \<^verbatim>\<open>val2base\<close> (lines 42 to 86). \<^verbatim>\<open>re.search\<close> raises TypeError on an object that is
  not a string. In the minutes-and-seconds branch the second group is added as the
  \<^verbatim>\<open>str\<close> it is: \<^verbatim>\<open>int(val.group(1))*60 + val.group(2)\<close>.
\<close>

definition val2base :: "json \<Rightarrow> pyerr + json" where
  "val2base v =
     (case v of
        JStr s \<Rightarrow>
          scaled pat_Ki 1024 s
         (scaled pat_Mi (1024 * 1024) s
         (scaled pat_Gi (1024 * 1024 * 1024) s
         (let otherwise = scaled pat_m 60 s (Inr (JStr s)) in
          case re_search pat_ms s True of
            None \<Rightarrow> otherwise
          | Some val \<Rightarrow>
              bind_err (group_true val 1) (\<lambda>t1.
                if t1 then
                  bind_err (group_true val 2) (\<lambda>t2.
                    if t2 then
                      bind_err (group val 1) (\<lambda>g1. bind_err (py_int g1) (\<lambda>n.
                        bind_err (group val 2) (\<lambda>g2. py_add_int (n * 60) (JStr g2))))
                    else otherwise)
                else otherwise))))
      | _ \<Rightarrow> Inl TypeError)"
section \<open>\<^verbatim>\<open>json.loads\<close>\<close>

text \<open>
  \<^verbatim>\<open>json.loads\<close> is modelled in two passes: \<open>lex\<close> cuts the text into tokens and \<open>run\<close>
  builds the value with an explicit stack. Every failure of either pass is the one
  exception \<^verbatim>\<open>json.loads\<close> raises on a \<^verbatim>\<open>str\<close>, JSONDecodeError, which is a ValueError.
  The limits of the model: a \<^verbatim>\<open>\u\<close> escape for a code point from 256 on is outside the
  alphabet and is rejected; the recursion limit of the interpreter is not modelled; and
  the \<^verbatim>\<open>repr\<close> of the float a number token denotes is the parameter \<open>float_repr\<close>
  (from the token text to the \<^verbatim>\<open>repr\<close> of \<^verbatim>\<open>float(text)\<close>), since floating point is not
  modelled.
\<close>

datatype token = TLBrace | TRBrace | TLBracket | TRBracket | TComma | TColon | TVal json

text \<open>White space between tokens: space, tab, line feed, carriage return.\<close>

definition is_ws :: "char \<Rightarrow> bool" where
  "is_ws c = (c = CHR '' '' \<or> c = CHR 0x09 \<or> c = CHR 0x0A \<or> c = CHR 0x0D)"

text \<open>The four hexadecimal digits of a \<^verbatim>\<open>\u\<close> escape.\<close>

definition hex_val :: "char \<Rightarrow> nat option" where
  "hex_val c =
     (let n = (of_char c :: nat)
      in if 48 \<le> n \<and> n \<le> 57 then Some (n - 48)
         else if 97 \<le> n \<and> n \<le> 102 then Some (n - 87)
         else if 65 \<le> n \<and> n \<le> 70 then Some (n - 55)
         else None)"

definition hex4 :: "char \<Rightarrow> char \<Rightarrow> char \<Rightarrow> char \<Rightarrow> nat option" where
  "hex4 a b c d =
     (case (hex_val a, hex_val b, hex_val c, hex_val d) of
        (Some x, Some y, Some z, Some w) \<Rightarrow> Some (((x * 16 + y) * 16 + z) * 16 + w)
      | _ \<Rightarrow> None)"

text \<open>The one-letter escapes of a JSON string.\<close>

definition unescape :: "char \<Rightarrow> char option" where
  "unescape e =
     (if e = CHR 0x22 then Some (CHR 0x22)
      else if e = CHR 0x5C then Some (CHR 0x5C)
      else if e = CHR ''/'' then Some (CHR ''/'')
      else if e = CHR ''b'' then Some (CHR 0x08)
      else if e = CHR ''f'' then Some (CHR 0x0C)
      else if e = CHR ''n'' then Some (CHR 0x0A)
      else if e = CHR ''r'' then Some (CHR 0x0D)
      else if e = CHR ''t'' then Some (CHR 0x09)
      else None)"

text \<open>
  \<open>scanstring acc s\<close> reads a string body up to its closing quote and returns the
  decoded text and the rest of the input. In strict mode, the default, a control character
  inside a string is an error.
\<close>

fun scanstring :: "string \<Rightarrow> string \<Rightarrow> (string \<times> string) option" where
  "scanstring acc [] = None"
| "scanstring acc (c # cs) =
     (if c = CHR 0x22 then Some (rev acc, cs)
      else if c = CHR 0x5C then
        (case cs of
           [] \<Rightarrow> None
         | e # r \<Rightarrow>
             if e = CHR ''u'' then
               (case r of
                  h1 # h2 # h3 # h4 # r' \<Rightarrow>
                    (case hex4 h1 h2 h3 h4 of
                       None \<Rightarrow> None
                     | Some n \<Rightarrow> if n < 256 then scanstring (char_of n # acc) r' else None)
                | _ \<Rightarrow> None)
             else
               (case unescape e of
                  None \<Rightarrow> None
                | Some x \<Rightarrow> scanstring (x # acc) r))
      else if (of_char c :: nat) < 32 then None
      else scanstring (c # acc) cs)"

text \<open>
  A number token, after \<^verbatim>\<open>(-?(?:0|[1-9]\d*))(\.\d+)?([eE][-+]?\d+)?\<close>: the integer part,
  then the optional fraction and exponent. Without fraction and exponent the value is an
  \<^verbatim>\<open>int\<close>, otherwise a \<^verbatim>\<open>float\<close>.
\<close>

definition scan_int :: "string \<Rightarrow> (string \<times> string) option" where
  "scan_int s =
     (case s of
        [] \<Rightarrow> None
      | c # r \<Rightarrow>
          if c = CHR ''0'' then Some ([c], r)
          else if is_digit c then Some (takeWhile is_digit s, dropWhile is_digit s)
          else None)"

definition scan_frac :: "string \<Rightarrow> string \<times> string" where
  "scan_frac s =
     (case s of
        c # r \<Rightarrow>
          if c = CHR ''.'' \<and> takeWhile is_digit r \<noteq> []
          then (c # takeWhile is_digit r, dropWhile is_digit r)
          else ([], s)
      | [] \<Rightarrow> ([], s))"

definition scan_sign :: "string \<Rightarrow> string \<times> string" where
  "scan_sign s =
     (case s of
        c # r \<Rightarrow> if c = CHR ''+'' \<or> c = CHR ''-'' then ([c], r) else ([], s)
      | [] \<Rightarrow> ([], s))"

definition scan_exp :: "string \<Rightarrow> string \<times> string" where
  "scan_exp s =
     (case s of
        c # r \<Rightarrow>
          if c = CHR ''e'' \<or> c = CHR ''E'' then
            (case scan_sign r of
               (sg, r1) \<Rightarrow>
                 if takeWhile is_digit r1 \<noteq> []
                 then (c # sg @ takeWhile is_digit r1, dropWhile is_digit r1)
                 else ([], s))
          else ([], s)
      | [] \<Rightarrow> ([], s))"

definition scan_minus :: "string \<Rightarrow> bool \<times> string" where
  "scan_minus s =
     (case s of
        c # r \<Rightarrow> if c = CHR ''-'' then (True, r) else (False, s)
      | [] \<Rightarrow> (False, s))"

definition scan_number :: "(string \<Rightarrow> string) \<Rightarrow> string \<Rightarrow> (json \<times> string) option" where
  "scan_number float_repr s =
     (case scan_minus s of
        (neg, s1) \<Rightarrow>
          (case scan_int s1 of
             None \<Rightarrow> None
           | Some (ds, s2) \<Rightarrow>
               (case scan_frac s2 of
                  (frac, s3) \<Rightarrow>
                    (case scan_exp s3 of
                       (ex, s4) \<Rightarrow>
                         if frac = [] \<and> ex = []
                         then Some (JInt (if neg then - dec_val ds else dec_val ds), s4)
                         else Some (JFloat (float_repr
                                 ((if neg then ''-'' else []) @ ds @ frac @ ex)), s4)))))"

definition starts_with :: "string \<Rightarrow> string \<Rightarrow> bool" where
  "starts_with lit s = (take (length lit) s = lit)"

text \<open>Each scanner consumes input; \<open>lex\<close> terminates by these facts.\<close>

lemma scanstring_length: "scanstring acc s = Some (x, r) \<Longrightarrow> length r < length s"
proof (induction acc s rule: scanstring.induct)
  case (1 acc)
  then show ?case by simp
next
  case (2 acc c cs)
  show ?case
  proof (cases "c = CHR 0x22")
    case True
    with "2.prems" show ?thesis by simp
  next
    case nq: False
    show ?thesis
    proof (cases "c = CHR 0x5C")
      case True
      show ?thesis
      proof (cases cs)
        case Nil
        with "2.prems" nq True show ?thesis by simp
      next
        case (Cons e r0)
        show ?thesis
        proof (cases "e = CHR ''u''")
          case u: True
          from "2.prems" nq True Cons u obtain h1 h2 h3 h4 r' n where
            r0: "r0 = h1 # h2 # h3 # h4 # r'" and h: "hex4 h1 h2 h3 h4 = Some n"
            and n: "n < 256" and rec: "scanstring (char_of n # acc) r' = Some (x, r)"
            by (auto split: list.splits option.splits if_splits)
          from "2.IH"(1) [OF nq True Cons u r0 refl refl refl h n rec]
          have "length r < length r'" .
          then show ?thesis by (simp add: Cons r0)
        next
          case nu: False
          from "2.prems" nq True Cons nu obtain y where
            y: "unescape e = Some y" and rec: "scanstring (y # acc) r0 = Some (x, r)"
            by (auto split: option.splits)
          from "2.IH"(2) [OF nq True Cons nu y rec]
          have "length r < length r0" .
          then show ?thesis by (simp add: Cons)
        qed
      qed
    next
      case nb: False
      with "2.prems" nq have c: "\<not> (of_char c :: nat) < 32"
        and rec: "scanstring (c # acc) cs = Some (x, r)"
        by (auto split: if_splits)
      from "2.IH"(3) [OF nq nb c rec] show ?thesis by simp
    qed
  qed
qed

lemma scan_int_length: "scan_int s = Some (ds, r) \<Longrightarrow> length r < length s"
  by (cases s)
    (auto simp: scan_int_def le_imp_less_Suc length_dropWhile_le split: if_splits)

lemma scan_frac_length: "scan_frac s = (f, r) \<Longrightarrow> length r \<le> length s"
  by (cases s)
    (auto simp: scan_frac_def le_SucI length_dropWhile_le split: if_splits)

lemma scan_sign_length: "scan_sign s = (f, r) \<Longrightarrow> length r \<le> length s"
  by (cases s) (auto simp: scan_sign_def split: if_splits)

lemma scan_exp_length: "scan_exp s = (f, r) \<Longrightarrow> length r \<le> length s"
proof (cases s)
  case Nil
  then show "scan_exp s = (f, r) \<Longrightarrow> length r \<le> length s"
    by (simp add: scan_exp_def)
next
  case (Cons c r0)
  assume a: "scan_exp s = (f, r)"
  obtain sg r1 where sg: "scan_sign r0 = (sg, r1)" by (cases "scan_sign r0")
  then have "length r1 \<le> length r0" by (rule scan_sign_length)
  moreover have "length (dropWhile is_digit r1) \<le> length r1" by (rule length_dropWhile_le)
  ultimately have "length (dropWhile is_digit r1) \<le> Suc (length r0)" by simp
  with a show "length r \<le> length s"
    by (auto simp: scan_exp_def Cons sg split: if_splits)
qed

lemma scan_minus_length: "scan_minus s = (neg, r) \<Longrightarrow> length r \<le> length s"
  by (cases s) (auto simp: scan_minus_def split: if_splits)

lemma scan_number_length:
  assumes "scan_number fl s = Some (v, r)"
  shows "length r < length s"
proof -
  obtain neg s1 where m: "scan_minus s = (neg, s1)" by (cases "scan_minus s")
  from assms m obtain ds s2 where i: "scan_int s1 = Some (ds, s2)"
    by (auto simp: scan_number_def split: option.splits)
  obtain frac s3 where f: "scan_frac s2 = (frac, s3)" by (cases "scan_frac s2")
  obtain ex s4 where e: "scan_exp s3 = (ex, s4)" by (cases "scan_exp s3")
  from assms have r: "r = s4"
    by (auto simp: scan_number_def m i f e split: if_splits)
  from m have "length s1 \<le> length s" by (rule scan_minus_length)
  moreover from i have "length s2 < length s1" by (rule scan_int_length)
  moreover from f have "length s3 \<le> length s2" by (rule scan_frac_length)
  moreover from e have "length s4 \<le> length s3" by (rule scan_exp_length)
  ultimately show ?thesis using r by simp
qed

text \<open>
  The scanner, in the order of \<^verbatim>\<open>scan_once\<close>: string, object, array, \<^verbatim>\<open>null\<close>, \<^verbatim>\<open>true\<close>,
  \<^verbatim>\<open>false\<close>, number, \<^verbatim>\<open>NaN\<close>, \<^verbatim>\<open>Infinity\<close>, \<^verbatim>\<open>-Infinity\<close>.
\<close>

function lex :: "(string \<Rightarrow> string) \<Rightarrow> string \<Rightarrow> token list option" where
  "lex float_repr [] = Some []"
| "lex float_repr (c # cs) =
     (if is_ws c then lex float_repr cs
      else if c = CHR 0x22 then
        (case scanstring [] cs of
           None \<Rightarrow> None
         | Some (str, rest) \<Rightarrow> map_option ((#) (TVal (JStr str))) (lex float_repr rest))
      else if c = CHR ''{'' then map_option ((#) TLBrace) (lex float_repr cs)
      else if c = CHR ''}'' then map_option ((#) TRBrace) (lex float_repr cs)
      else if c = CHR ''['' then map_option ((#) TLBracket) (lex float_repr cs)
      else if c = CHR '']'' then map_option ((#) TRBracket) (lex float_repr cs)
      else if c = CHR '','' then map_option ((#) TComma) (lex float_repr cs)
      else if c = CHR '':'' then map_option ((#) TColon) (lex float_repr cs)
      else if starts_with ''null'' (c # cs)
        then map_option ((#) (TVal JNull)) (lex float_repr (drop 3 cs))
      else if starts_with ''true'' (c # cs)
        then map_option ((#) (TVal (JBool True))) (lex float_repr (drop 3 cs))
      else if starts_with ''false'' (c # cs)
        then map_option ((#) (TVal (JBool False))) (lex float_repr (drop 4 cs))
      else
        (case scan_number float_repr (c # cs) of
           Some (v, rest) \<Rightarrow> map_option ((#) (TVal v)) (lex float_repr rest)
         | None \<Rightarrow>
             if starts_with ''NaN'' (c # cs)
               then map_option ((#) (TVal (JFloat ''nan''))) (lex float_repr (drop 2 cs))
             else if starts_with ''Infinity'' (c # cs)
               then map_option ((#) (TVal (JFloat ''inf''))) (lex float_repr (drop 7 cs))
             else if starts_with ''-Infinity'' (c # cs)
               then map_option ((#) (TVal (JFloat ''-inf''))) (lex float_repr (drop 8 cs))
             else None))"
  by pat_completeness auto
termination
  by (relation "measure (\<lambda>(float_repr, s). length s)")
    (auto dest: scanstring_length scan_number_length)

text \<open>
  The value builder. The stack holds the arrays and objects under construction (their
  elements in reverse) and the key waiting for its value. A dict keeps the first position
  of a key and its last value.
\<close>

datatype frame = FArr "json list" | FObj "(string \<times> json) list" | FKey string

datatype pmode = WantValue | WantValueOrEnd | WantKey | WantKeyOrEnd | WantColon | Have json

fun dict_set :: "(string \<times> json) list \<Rightarrow> string \<Rightarrow> json \<Rightarrow> (string \<times> json) list" where
  "dict_set [] k v = [(k, v)]"
| "dict_set ((k', v') # d) k v = (if k' = k then (k', v) # d else (k', v') # dict_set d k v)"

definition dict_of_pairs :: "(string \<times> json) list \<Rightarrow> (string \<times> json) list" where
  "dict_of_pairs ps = foldl (\<lambda>d (k, v). dict_set d k v) [] ps"

definition open_value :: "frame list \<Rightarrow> token \<Rightarrow> (pmode \<times> frame list) option" where
  "open_value stack t =
     (case t of
        TVal v \<Rightarrow> Some (Have v, stack)
      | TLBracket \<Rightarrow> Some (WantValueOrEnd, FArr [] # stack)
      | TLBrace \<Rightarrow> Some (WantKeyOrEnd, FObj [] # stack)
      | _ \<Rightarrow> None)"

definition want_key :: "frame list \<Rightarrow> token \<Rightarrow> (pmode \<times> frame list) option" where
  "want_key stack t =
     (case t of
        TVal (JStr k) \<Rightarrow> Some (WantColon, FKey k # stack)
      | _ \<Rightarrow> None)"

definition pstep :: "pmode \<times> frame list \<Rightarrow> token \<Rightarrow> (pmode \<times> frame list) option" where
  "pstep st t =
     (case st of (mode, stack) \<Rightarrow>
        (case mode of
           WantValue \<Rightarrow> open_value stack t
         | WantValueOrEnd \<Rightarrow>
             (case (t, stack) of
                (TRBracket, FArr acc # stack') \<Rightarrow> Some (Have (JArr (rev acc)), stack')
              | _ \<Rightarrow> open_value stack t)
         | WantKey \<Rightarrow> want_key stack t
         | WantKeyOrEnd \<Rightarrow>
             (case (t, stack) of
                (TRBrace, FObj acc # stack') \<Rightarrow>
                  Some (Have (JObj (dict_of_pairs (rev acc))), stack')
              | _ \<Rightarrow> want_key stack t)
         | WantColon \<Rightarrow> (case t of TColon \<Rightarrow> Some (WantValue, stack) | _ \<Rightarrow> None)
         | Have v \<Rightarrow>
             (case stack of
                FArr acc # stack' \<Rightarrow>
                  (case t of
                     TComma \<Rightarrow> Some (WantValue, FArr (v # acc) # stack')
                   | TRBracket \<Rightarrow> Some (Have (JArr (rev (v # acc))), stack')
                   | _ \<Rightarrow> None)
              | FKey k # FObj acc # stack' \<Rightarrow>
                  (case t of
                     TComma \<Rightarrow> Some (WantKey, FObj ((k, v) # acc) # stack')
                   | TRBrace \<Rightarrow>
                       Some (Have (JObj (dict_of_pairs (rev ((k, v) # acc)))), stack')
                   | _ \<Rightarrow> None)
              | _ \<Rightarrow> None)))"

fun run :: "pmode \<times> frame list \<Rightarrow> token list \<Rightarrow> json option" where
  "run st [] = (case st of (Have v, []) \<Rightarrow> Some v | _ \<Rightarrow> None)"
| "run st (t # ts) = (case pstep st t of None \<Rightarrow> None | Some st' \<Rightarrow> run st' ts)"

definition json_loads :: "(string \<Rightarrow> string) \<Rightarrow> string \<Rightarrow> pyerr + json" where
  "json_loads float_repr s =
     (case lex float_repr s of
        None \<Rightarrow> Inl ValueError
      | Some ts \<Rightarrow>
          (case run (WantValue, []) ts of
             None \<Rightarrow> Inl ValueError
           | Some v \<Rightarrow> Inr v))"

section \<open>\<^verbatim>\<open>json2dict\<close>\<close>

text \<open>
  \<^verbatim>\<open>json2dict\<close> (lines 25 to 39): \<^verbatim>\<open>json_object = dict()\<close>, then
  \<^verbatim>\<open>try: json_object = json.loads(data)\<close> with \<^verbatim>\<open>except ValueError: pass\<close>. Any other
  exception would propagate.
\<close>

definition json2dict :: "(string \<Rightarrow> string) \<Rightarrow> string \<Rightarrow> pyerr + json" where
  "json2dict float_repr data =
     (let json_object = JObj []
      in case json_loads float_repr data of
           Inr obj \<Rightarrow> Inr obj
         | Inl ValueError \<Rightarrow> Inr json_object
         | Inl e \<Rightarrow> Inl e)"
section \<open>Formatting: \<^verbatim>\<open>str.join\<close>, \<^verbatim>\<open>str\<close> and \<^verbatim>\<open>repr\<close>\<close>

fun py_join :: "string \<Rightarrow> string list \<Rightarrow> string" where
  "py_join sep [] = []"
| "py_join sep [x] = x"
| "py_join sep (x # y # ys) = x @ sep @ py_join sep (y # ys)"

text \<open>\<^verbatim>\<open>str\<close> of an \<^verbatim>\<open>int\<close>: its decimal digits, with a minus sign when negative.\<close>

fun nat_str :: "nat \<Rightarrow> string" where
  "nat_str n = (if n < 10 then [char_of (48 + n)] else nat_str (n div 10) @ [char_of (48 + n mod 10)])"

declare nat_str.simps [simp del]

definition int_str :: "int \<Rightarrow> string" where
  "int_str i = (if i < 0 then CHR ''-'' # nat_str (nat (- i)) else nat_str (nat i))"

text \<open>
  \<^verbatim>\<open>repr\<close> of a \<^verbatim>\<open>str\<close>: single quotes, or double quotes when the text has a single quote
  and no double quote; the quote and the backslash escaped; tab, line feed and carriage
  return as \<^verbatim>\<open>\t\<close>, \<^verbatim>\<open>\n\<close>, \<^verbatim>\<open>\r\<close>; any other character that is not printable as
  \<^verbatim>\<open>\xhh\<close>.
\<close>

definition is_printable :: "char \<Rightarrow> bool" where
  "is_printable c =
     (let n = (of_char c :: nat) in (32 \<le> n \<and> n \<le> 126) \<or> (161 \<le> n \<and> n \<noteq> 173))"

definition hex_digit :: "nat \<Rightarrow> char" where
  "hex_digit n = (if n < 10 then char_of (48 + n) else char_of (87 + n))"

definition repr_char :: "char \<Rightarrow> char \<Rightarrow> string" where
  "repr_char q c =
     (if c = q \<or> c = CHR 0x5C then [CHR 0x5C, c]
      else if c = CHR 0x09 then [CHR 0x5C, CHR ''t'']
      else if c = CHR 0x0A then [CHR 0x5C, CHR ''n'']
      else if c = CHR 0x0D then [CHR 0x5C, CHR ''r'']
      else if \<not> is_printable c
        then [CHR 0x5C, CHR ''x'', hex_digit (of_char c div 16), hex_digit (of_char c mod 16)]
      else [c])"

definition str_repr :: "string \<Rightarrow> string" where
  "str_repr s =
     (let q = (if CHR 0x27 \<in> set s \<and> CHR 0x22 \<notin> set s then CHR 0x22 else CHR 0x27)
      in q # concat (map (repr_char q) s) @ [q])"

text \<open>
  \<^verbatim>\<open>'{}'.format(v)\<close> inserts \<^verbatim>\<open>str(v)\<close>: the text itself for a \<^verbatim>\<open>str\<close>, the \<^verbatim>\<open>repr\<close>
  for the other objects \<^verbatim>\<open>json.loads\<close> builds.
\<close>

fun py_repr :: "json \<Rightarrow> string" where
  "py_repr JNull = ''None''"
| "py_repr (JBool b) = (if b then ''True'' else ''False'')"
| "py_repr (JInt i) = int_str i"
| "py_repr (JFloat r) = r"
| "py_repr (JStr s) = str_repr s"
| "py_repr (JArr xs) = ''['' @ py_join '', '' (map py_repr xs) @ '']''"
| "py_repr (JObj kvs) =
     ''{'' @ py_join '', '' (map (\<lambda>kv. str_repr (fst kv) @ '': '' @ py_repr (snd kv)) kvs) @ ''}''"

definition py_str :: "json \<Rightarrow> string" where
  "py_str v = (case v of JStr s \<Rightarrow> s | _ \<Rightarrow> py_repr v)"

section \<open>\<^verbatim>\<open>dict.get\<close> and iteration\<close>

text \<open>
  \<^verbatim>\<open>obj.get(key, default)\<close>: only a dict has the method; on every other object the
  attribute lookup raises AttributeError.
\<close>

definition py_get :: "json \<Rightarrow> string \<Rightarrow> json \<Rightarrow> pyerr + json" where
  "py_get obj key dflt =
     (case obj of
        JObj kvs \<Rightarrow> Inr (case map_of kvs key of Some v \<Rightarrow> v | None \<Rightarrow> dflt)
      | _ \<Rightarrow> Inl AttributeError)"

text \<open>
  \<^verbatim>\<open>for x in v\<close>: the elements of a list, the keys of a dict, the characters of a
  \<^verbatim>\<open>str\<close>; TypeError on an object that is not iterable.
\<close>

definition py_iter :: "json \<Rightarrow> pyerr + json list" where
  "py_iter v =
     (case v of
        JArr xs \<Rightarrow> Inr xs
      | JObj kvs \<Rightarrow> Inr (map (\<lambda>kv. JStr (fst kv)) kvs)
      | JStr s \<Rightarrow> Inr (map (\<lambda>c. JStr [c]) s)
      | _ \<Rightarrow> Inl TypeError)"

section \<open>\<^verbatim>\<open>trans_node_metrics\<close>\<close>

text \<open>
  \<^verbatim>\<open>tpl.format(...)\<close> with the templates of lines 110 and 149: each \<^verbatim>\<open>{}\<close> takes the
  \<^verbatim>\<open>str\<close> of its argument, \<^verbatim>\<open>{{\<close> and \<^verbatim>\<open>}}\<close> are the literal braces. The first argument
  is the literal \<^verbatim>\<open>'cpu'\<close> or \<^verbatim>\<open>'mem'\<close>.
\<close>

definition node_tpl ::
  "string \<Rightarrow> json \<Rightarrow> json \<Rightarrow> json \<Rightarrow> json \<Rightarrow> json \<Rightarrow> json \<Rightarrow> string" where
  \<open>node_tpl kind node created timestamp window debugval val =
     ''kube_metrics_server_node_'' @ kind @ ''{node="'' @ py_str node @
     ''",created="'' @ py_str created @ ''",timestamp="'' @ py_str timestamp @
     ''",window="'' @ py_str window @ ''",debugval="'' @ py_str debugval @
     ''"} '' @ py_str val\<close>

definition pod_tpl ::
  "string \<Rightarrow> json \<Rightarrow> json \<Rightarrow> json \<Rightarrow> json \<Rightarrow> json \<Rightarrow> json \<Rightarrow> json \<Rightarrow> json
     \<Rightarrow> string" where
  \<open>pod_tpl kind pod container namespace created timestamp window debugval val =
     ''kube_metrics_server_pod_'' @ kind @ ''{pod="'' @ py_str pod @
     ''",container="'' @ py_str container @ ''",namespace="'' @ py_str namespace @
     ''",created="'' @ py_str created @ ''",timestamp="'' @ py_str timestamp @
     ''",window="'' @ py_str window @ ''",debugval="'' @ py_str debugval @
     ''"} '' @ py_str val\<close>

text \<open>The header lines appended to \<^verbatim>\<open>cpu\<close> and \<^verbatim>\<open>mem\<close> before the loop.\<close>

definition node_cpu_header :: "string list" where
  "node_cpu_header =
     [''# HELP kube_metrics_server_node_cpu The CPU time of a node in seconds.'',
      ''# TYPE kube_metrics_server_node_cpu gauge'']"

definition node_mem_header :: "string list" where
  "node_mem_header =
     [''# HELP kube_metrics_server_node_mem The memory of a node in Bytes.'',
      ''# TYPE kube_metrics_server_node_mem gauge'']"

definition pod_cpu_header :: "string list" where
  "pod_cpu_header =
     [''# HELP kube_metrics_server_pod_cpu The CPU time of a pod in seconds.'',
      ''# TYPE kube_metrics_server_pod_cpu gauge'']"

definition pod_mem_header :: "string list" where
  "pod_mem_header =
     [''# HELP kube_metrics_server_pod_mem The memory of a pod in Bytes.'',
      ''# TYPE kube_metrics_server_pod_mem gauge'']"

text \<open>
  The dicts \<^verbatim>\<open>lbl\<close> and \<^verbatim>\<open>val\<close> of the loop body (lines 113 to 122) have fixed keys and
  are records here. Their entries are evaluated in the order written; the default of
  the outer \<^verbatim>\<open>get\<close> is the empty list \<^verbatim>\<open>[]\<close>, as in the source.
\<close>

record node_lbl =
  lbl_node :: json
  lbl_created :: json
  lbl_timestamp :: json
  lbl_window :: json

record usage_val =
  val_cpu :: json
  val_mem :: json

definition node_labels :: "json \<Rightarrow> pyerr + node_lbl" where
  "node_labels node =
     bind_err (py_get node ''metadata'' (JArr [])) (\<lambda>md.
     bind_err (py_get md ''name'' (JStr '''')) (\<lambda>name.
     bind_err (py_get node ''metadata'' (JArr [])) (\<lambda>md'.
     bind_err (py_get md' ''creationTimestamp'' (JStr '''')) (\<lambda>created.
     bind_err (py_get node ''timestamp'' (JStr '''')) (\<lambda>timestamp.
     bind_err (py_get node ''window'' (JStr '''')) (\<lambda>window.
       Inr \<lparr>lbl_node = name, lbl_created = created, lbl_timestamp = timestamp,
            lbl_window = window\<rparr>))))))"

definition usage_values :: "json \<Rightarrow> pyerr + usage_val" where
  "usage_values item =
     bind_err (py_get item ''usage'' (JArr [])) (\<lambda>u.
     bind_err (py_get u ''cpu'' (JStr '''')) (\<lambda>cpu.
     bind_err (py_get item ''usage'' (JArr [])) (\<lambda>u'.
     bind_err (py_get u' ''memory'' (JStr '''')) (\<lambda>mem.
       Inr \<lparr>val_cpu = cpu, val_mem = mem\<rparr>))))"

text \<open>
  Lines 123 and 124: the two lines one node adds. \<^verbatim>\<open>val2base\<close> is called on the cpu
  value first, then on the memory value.
\<close>

definition node_series :: "json \<Rightarrow> pyerr + string \<times> string" where
  "node_series node =
     bind_err (node_labels node) (\<lambda>lbl.
     bind_err (usage_values node) (\<lambda>val.
     bind_err (val2base (val_cpu val)) (\<lambda>cpu_base.
     bind_err (val2base (val_mem val)) (\<lambda>mem_base.
       Inr (node_tpl ''cpu'' (lbl_node lbl) (lbl_created lbl) (lbl_timestamp lbl)
              (lbl_window lbl) (val_cpu val) cpu_base,
            node_tpl ''mem'' (lbl_node lbl) (lbl_created lbl) (lbl_timestamp lbl)
              (lbl_window lbl) (val_mem val) mem_base)))))"

text \<open>The loop of line 112, with the lists \<^verbatim>\<open>cpu\<close> and \<^verbatim>\<open>mem\<close> as accumulators.\<close>

fun node_loop :: "json list \<Rightarrow> string list \<Rightarrow> string list \<Rightarrow> pyerr + string list \<times> string list" where
  "node_loop [] cpu mem = Inr (cpu, mem)"
| "node_loop (node # rest) cpu mem =
     bind_err (node_series node) (\<lambda>(c, m). node_loop rest (cpu @ [c]) (mem @ [m]))"

text \<open>\<^verbatim>\<open>data.get('items', [])\<close>, iterated: the item sequence of the decoded document.\<close>

definition doc_items :: "json \<Rightarrow> pyerr + json list" where
  "doc_items data = bind_err (py_get data ''items'' (JArr [])) py_iter"

text \<open>
  \<^verbatim>\<open>trans_node_metrics\<close> (lines 89 to 125) is \<open>render_nodes\<close> after \<^verbatim>\<open>json2dict\<close>; the
  result is \<^verbatim>\<open>'\n'.join(cpu + mem)\<close>.
\<close>

definition render_nodes :: "json \<Rightarrow> pyerr + string" where
  "render_nodes data =
     bind_err (doc_items data) (\<lambda>nodes.
     bind_err (node_loop nodes node_cpu_header node_mem_header) (\<lambda>(cpu, mem).
       Inr (py_join [CHR 0x0A] (cpu @ mem))))"

definition trans_node_metrics :: "(string \<Rightarrow> string) \<Rightarrow> string \<Rightarrow> pyerr + string" where
  "trans_node_metrics float_repr string = bind_err (json2dict float_repr string) render_nodes"

section \<open>\<^verbatim>\<open>trans_pod_metrics\<close>\<close>

text \<open>The dict \<^verbatim>\<open>lbl\<close> of lines 152 to 158; \<^verbatim>\<open>lbl['cont']\<close> is set per container.\<close>

record pod_lbl =
  lbl_pod :: json
  lbl_ns :: json
  lbl_pcreated :: json
  lbl_ptimestamp :: json
  lbl_pwindow :: json

definition pod_labels :: "json \<Rightarrow> pyerr + pod_lbl" where
  "pod_labels pod =
     bind_err (py_get pod ''metadata'' (JArr [])) (\<lambda>md.
     bind_err (py_get md ''name'' (JStr '''')) (\<lambda>name.
     bind_err (py_get pod ''metadata'' (JArr [])) (\<lambda>md'.
     bind_err (py_get md' ''namespace'' (JStr '''')) (\<lambda>ns.
     bind_err (py_get pod ''metadata'' (JArr [])) (\<lambda>md''.
     bind_err (py_get md'' ''creationTimestamp'' (JStr '''')) (\<lambda>created.
     bind_err (py_get pod ''timestamp'' (JStr '''')) (\<lambda>timestamp.
     bind_err (py_get pod ''window'' (JStr '''')) (\<lambda>window.
       Inr \<lparr>lbl_pod = name, lbl_ns = ns, lbl_pcreated = created,
            lbl_ptimestamp = timestamp, lbl_pwindow = window\<rparr>))))))))"

text \<open>Lines 161 to 167: the two lines one container adds.\<close>

definition container_series :: "pod_lbl \<Rightarrow> json \<Rightarrow> pyerr + string \<times> string" where
  "container_series lbl container =
     bind_err (py_get container ''name'' (JStr '''')) (\<lambda>cont.
     bind_err (usage_values container) (\<lambda>val.
     bind_err (val2base (val_cpu val)) (\<lambda>cpu_base.
     bind_err (val2base (val_mem val)) (\<lambda>mem_base.
       Inr (pod_tpl ''cpu'' (lbl_pod lbl) cont (lbl_ns lbl) (lbl_pcreated lbl)
              (lbl_ptimestamp lbl) (lbl_pwindow lbl) (val_cpu val) cpu_base,
            pod_tpl ''mem'' (lbl_pod lbl) cont (lbl_ns lbl) (lbl_pcreated lbl)
              (lbl_ptimestamp lbl) (lbl_pwindow lbl) (val_mem val) mem_base)))))"

text \<open>The inner loop of line 160 and the outer loop of line 151.\<close>

fun container_loop ::
  "pod_lbl \<Rightarrow> json list \<Rightarrow> string list \<Rightarrow> string list \<Rightarrow> pyerr + string list \<times> string list" where
  "container_loop lbl [] cpu mem = Inr (cpu, mem)"
| "container_loop lbl (container # rest) cpu mem =
     bind_err (container_series lbl container) (\<lambda>(c, m).
       container_loop lbl rest (cpu @ [c]) (mem @ [m]))"

definition pod_containers :: "json \<Rightarrow> pyerr + json list" where
  "pod_containers pod = bind_err (py_get pod ''containers'' (JArr [])) py_iter"

fun pod_loop :: "json list \<Rightarrow> string list \<Rightarrow> string list \<Rightarrow> pyerr + string list \<times> string list" where
  "pod_loop [] cpu mem = Inr (cpu, mem)"
| "pod_loop (pod # rest) cpu mem =
     bind_err (pod_labels pod) (\<lambda>lbl.
     bind_err (pod_containers pod) (\<lambda>containers.
     bind_err (container_loop lbl containers cpu mem) (\<lambda>(cpu', mem').
       pod_loop rest cpu' mem')))"

text \<open>\<^verbatim>\<open>trans_pod_metrics\<close> (lines 128 to 168).\<close>

definition render_pods :: "json \<Rightarrow> pyerr + string" where
  "render_pods data =
     bind_err (doc_items data) (\<lambda>pods.
     bind_err (pod_loop pods pod_cpu_header pod_mem_header) (\<lambda>(cpu, mem).
       Inr (py_join [CHR 0x0A] (cpu @ mem))))"

definition trans_pod_metrics :: "(string \<Rightarrow> string) \<Rightarrow> string \<Rightarrow> pyerr + string" where
  "trans_pod_metrics float_repr string = bind_err (json2dict float_repr string) render_pods"
section \<open>The five forms of \<^verbatim>\<open>val2base\<close>, as the specification words them\<close>

text \<open>
  The specification describes each pattern as a form of the whole input: a run of decimal
  digits followed by a suffix, the suffix compared without regard to letter case.
  \<open>form1 suf s\<close> says that \<open>s\<close> is a non-empty run of digits followed by exactly the
  suffix \<open>suf\<close> (given in lower case); \<open>form_ms s\<close> that it is digits, \<^verbatim>\<open>m\<close>, digits,
  \<^verbatim>\<open>s\<close>. \<open>chomp\<close> removes one final line feed, if there is one.
\<close>

definition chomp :: "string \<Rightarrow> string" where
  "chomp s = (if s \<noteq> [] \<and> last s = CHR 0x0A then butlast s else s)"

definition form1 :: "string \<Rightarrow> string \<Rightarrow> bool" where
  "form1 suf s =
     (takeWhile is_digit s \<noteq> [] \<and> map py_lower (dropWhile is_digit s) = suf)"

definition form_ms :: "string \<Rightarrow> bool" where
  "form_ms s =
     (takeWhile is_digit s \<noteq> [] \<and>
      (case dropWhile is_digit s of
         [] \<Rightarrow> False
       | c # r \<Rightarrow> py_lower c = CHR ''m'' \<and> form1 ''s'' r))"


definition patterns :: "re_item list list" where
  "patterns = [pat_Ki, pat_Mi, pat_Gi, pat_ms, pat_m]"
section \<open>The loops of the renderers as maps over the items\<close>

text \<open>
  \<open>map_err f xs\<close> applies \<open>f\<close> to the elements of \<open>xs\<close> from left to right and collects
  the results in the same order; the first exception ends it. The loops of the
  renderers are compared with it.
\<close>

fun map_err :: "('a \<Rightarrow> pyerr + 'b) \<Rightarrow> 'a list \<Rightarrow> pyerr + 'b list" where
  "map_err f [] = Inr []"
| "map_err f (x # xs) =
     bind_err (f x) (\<lambda>y. bind_err (map_err f xs) (\<lambda>ys. Inr (y # ys)))"

text \<open>
  The pairs of lines (cpu line, mem line) of one pod, as the specification words them: the
  labels of the pod are resolved, then each container of the pod, in the order of the
  container list, gives one pair.
\<close>

definition pod_series :: "json \<Rightarrow> pyerr + (string \<times> string) list" where
  "pod_series pod =
     bind_err (pod_labels pod) (\<lambda>lbl.
     bind_err (pod_containers pod) (\<lambda>containers.
       map_err (container_series lbl) containers))"

section \<open>Facts about the matcher and \<^verbatim>\<open>val2base\<close>\<close>

lemma match_here_Grp:
  "match_here ic (Grp_digits # r) b s =
     first_some (\<lambda>k. map_option (\<lambda>gs. take k s # gs) (match_here ic r False (drop k s)))
       (rev [1 ..< Suc (length (takeWhile is_digit s))])"
  by (simp only: match_here.simps re_item.case)

lemma match_here_Lit:
  "match_here ic (Lit p # r) b s =
     (case s of [] \<Rightarrow> None
      | c # cs \<Rightarrow> if lit_matches ic p c then match_here ic r False cs else None)"
  by (simp only: match_here.simps re_item.case)

lemma match_here_Bol:
  "match_here ic (Bol # r) b s = (if b then match_here ic r b s else None)"
  by (simp only: match_here.simps re_item.case)

lemma match_here_Eol:
  "match_here ic (Eol # r) b s =
     (if s = [] \<or> s = [CHR 0x0A] then match_here ic r b s else None)"
  by (simp only: match_here.simps re_item.case)

declare match_here.simps(2) [simp del]
declare match_here_Bol [simp] match_here_Eol [simp] match_here_Lit [simp]

lemma first_some_None: "(\<And>x. x \<in> set xs \<Longrightarrow> f x = None) \<Longrightarrow> first_some f xs = None"
  by (induction xs) auto

lemma first_some_head: "(\<And>x. x \<in> set xs \<Longrightarrow> f x = None) \<Longrightarrow> first_some f (x # xs) = f x"
  by (simp add: first_some_None split: option.splits)

lemma re_search_Bol: "re_search (Bol # r) s ic = match_here ic r True s"
proof -
  let ?f = "\<lambda>i. match_here ic (Bol # r) (i = 0) (drop i s)"
  have "[0 ..< Suc (length s)] = 0 # [Suc 0 ..< Suc (length s)]"
    by (rule upt_conv_Cons) simp
  moreover have "\<And>i. i \<in> set [Suc 0 ..< Suc (length s)] \<Longrightarrow> ?f i = None"
    by auto
  ultimately have "re_search (Bol # r) s ic = ?f 0"
    unfolding re_search_def using first_some_head [of "[Suc 0 ..< Suc (length s)]" ?f 0]
    by simp
  then show ?thesis by simp
qed

lemma of_char_py_lower:
  "(of_char (py_lower c) :: nat) =
     (let n = (of_char c :: nat)
      in if (65 \<le> n \<and> n \<le> 90) \<or> (192 \<le> n \<and> n \<le> 222 \<and> n \<noteq> 215)
         then n + 32 else n)"
  by (simp add: py_lower_def Let_def)

lemma digit_not_letter:
  assumes "is_digit c" and "97 \<le> (of_char (py_lower p) :: nat)"
  shows "\<not> lit_matches True p c"
proof
  assume "lit_matches True p c"
  then have "(of_char (py_lower p) :: nat) = of_char (py_lower c)"
    by (simp add: lit_matches_def)
  also have "\<dots> = of_char c"
    using assms(1) by (simp add: of_char_py_lower is_digit_def Let_def)
  finally show False using assms by (simp add: is_digit_def)
qed

lemma grp_then_lit:
  assumes nd: "\<And>c. is_digit c \<Longrightarrow> \<not> lit_matches ic p c"
  shows "match_here ic (Grp_digits # Lit p # r) b s =
     (if takeWhile is_digit s = [] then None
      else map_option (\<lambda>gs. takeWhile is_digit s # gs)
             (match_here ic (Lit p # r) False (dropWhile is_digit s)))"
proof (cases "takeWhile is_digit s = []")
  case True
  then show ?thesis by (simp add: match_here_Grp)
next
  case False
  let ?n = "length (takeWhile is_digit s)"
  let ?f = "\<lambda>k. map_option (\<lambda>gs. take k s # gs) (match_here ic (Lit p # r) False (drop k s))"
  from False have n: "0 < ?n" by (simp add: Suc_le_eq)
  have l: "rev [1 ..< Suc ?n] = ?n # rev [1 ..< ?n]"
    using False by (cases "takeWhile is_digit s") simp_all
  have none: "?f k = None" if "k \<in> set (rev [1 ..< ?n])" for k
  proof -
    from that have k: "k < ?n" by simp
    have "?n \<le> length s" by (rule length_takeWhile_le)
    with k have ks: "k < length s" by simp
    have "takeWhile is_digit s ! k = s ! k" using k by (rule takeWhile_nth)
    moreover have "is_digit (takeWhile is_digit s ! k)"
      using k by (meson nth_mem set_takeWhileD)
    ultimately have "is_digit (s ! k)" by simp
    then have "\<not> lit_matches ic p (s ! k)" by (rule nd)
    moreover have "drop k s = s ! k # drop (Suc k) s" using ks by (simp add: Cons_nth_drop_Suc)
    ultimately show ?thesis by simp
  qed
  have "match_here ic (Grp_digits # Lit p # r) b s = first_some ?f (rev [1 ..< Suc ?n])"
    by (rule match_here_Grp)
  also have "\<dots> = ?f ?n" unfolding l using none by (rule first_some_head)
  also have "take ?n s = takeWhile is_digit s" by (rule takeWhile_eq_take [symmetric])
  also have "drop ?n s = dropWhile is_digit s" by (rule dropWhile_eq_drop [symmetric])
  finally show ?thesis using False by (simp only: if_False)
qed


lemma chomp_Cons:
  "chomp (c # cs) = (if cs = [] then (if c = CHR 0x0A then [] else [c]) else c # chomp cs)"
  by (simp add: chomp_def)

lemma chomp_Nil [simp]: "chomp [] = []"
  by (simp add: chomp_def)

lemma py_lower_LF [simp]: "py_lower (CHR 0x0A) = CHR 0x0A"
  by (simp add: py_lower_def)

lemma not_digit_LF [simp]: "\<not> is_digit (CHR 0x0A)"
  by (simp add: is_digit_def)

lemma takeWhile_chomp: "takeWhile is_digit (chomp s) = takeWhile is_digit s"
  by (induction s) (auto simp: chomp_Cons)

lemma dropWhile_chomp: "dropWhile is_digit (chomp s) = chomp (dropWhile is_digit s)"
  by (induction s) (auto simp: chomp_Cons)

lemma match_lits_eol:
  assumes "CHR 0x0A \<notin> py_lower ` set suf"
  shows "match_here True (map Lit suf @ [Eol]) False t =
     (if map py_lower (chomp t) = map py_lower suf then Some [] else None)"
  using assms
proof (induction suf arbitrary: t)
  case Nil
  show ?case by (cases t) (auto simp: chomp_Cons split: if_splits)
next
  case (Cons p ps)
  then have p: "py_lower p \<noteq> CHR 0x0A" and ps: "CHR 0x0A \<notin> py_lower ` set ps"
    by auto
  show ?case
  proof (cases t)
    case Nil
    then show ?thesis by simp
  next
    case (Cons c cs)
    show ?thesis
      using p Cons.IH [OF ps, of cs]
      by (auto simp: Cons chomp_Cons lit_matches_def)
  qed
qed


lemma search_single:
  assumes letter: "97 \<le> (of_char (py_lower p) :: nat)"
    and nolf: "CHR 0x0A \<notin> py_lower ` set (p # ps)"
  shows "re_search (Bol # Grp_digits # map Lit (p # ps) @ [Eol]) s True =
     (if form1 (map py_lower (p # ps)) (chomp s) then Some [takeWhile is_digit s] else None)"
proof -
  have nd: "\<And>c. is_digit c \<Longrightarrow> \<not> lit_matches True p c"
    using letter by (rule digit_not_letter [rotated])
  have "re_search (Bol # Grp_digits # map Lit (p # ps) @ [Eol]) s True =
      match_here True (Grp_digits # Lit p # (map Lit ps @ [Eol])) True s"
    by (simp only: re_search_Bol list.map append_Cons)
  also have "\<dots> =
     (if takeWhile is_digit s = [] then None
      else map_option (\<lambda>gs. takeWhile is_digit s # gs)
             (match_here True (Lit p # (map Lit ps @ [Eol])) False (dropWhile is_digit s)))"
    by (rule grp_then_lit) (rule nd)
  also have "Lit p # (map Lit ps @ [Eol]) = map Lit (p # ps) @ [Eol]"
    by simp
  also have "(if takeWhile is_digit s = [] then None
      else map_option (\<lambda>gs. takeWhile is_digit s # gs)
             (match_here True (map Lit (p # ps) @ [Eol]) False (dropWhile is_digit s))) =
     (if form1 (map py_lower (p # ps)) (chomp s) then Some [takeWhile is_digit s] else None)"
    unfolding match_lits_eol [OF nolf] form1_def takeWhile_chomp dropWhile_chomp
    by simp
  finally show ?thesis .
qed

lemma py_lower_simps [simp]:
  "py_lower CHR ''K'' = CHR ''k''" "py_lower CHR ''M'' = CHR ''m''"
  "py_lower CHR ''G'' = CHR ''g''" "py_lower CHR ''i'' = CHR ''i''"
  "py_lower CHR ''m'' = CHR ''m''" "py_lower CHR ''s'' = CHR ''s''"
  "py_lower CHR ''k'' = CHR ''k''" "py_lower CHR ''g'' = CHR ''g''"
  by code_simp+

lemma search_Ki:
  "re_search pat_Ki s True =
     (if form1 ''ki'' (chomp s) then Some [takeWhile is_digit s] else None)"
  using search_single [of "CHR ''K''" "[CHR ''i'']" s] by (simp add: pat_Ki_def)

lemma search_Mi:
  "re_search pat_Mi s True =
     (if form1 ''mi'' (chomp s) then Some [takeWhile is_digit s] else None)"
  using search_single [of "CHR ''M''" "[CHR ''i'']" s] by (simp add: pat_Mi_def)

lemma search_Gi:
  "re_search pat_Gi s True =
     (if form1 ''gi'' (chomp s) then Some [takeWhile is_digit s] else None)"
  using search_single [of "CHR ''G''" "[CHR ''i'']" s] by (simp add: pat_Gi_def)

lemma search_m:
  "re_search pat_m s True =
     (if form1 ''m'' (chomp s) then Some [takeWhile is_digit s] else None)"
  using search_single [of "CHR ''m''" "[]" s] by (simp add: pat_m_def)

lemma search_ms:
  "re_search pat_ms s True =
     (if form_ms (chomp s)
      then Some [takeWhile is_digit s, takeWhile is_digit (tl (dropWhile is_digit s))]
      else None)"
proof -
  have ndm: "\<And>c. is_digit c \<Longrightarrow> \<not> lit_matches True CHR ''m'' c"
    by (rule digit_not_letter) simp_all
  have nds: "\<And>c. is_digit c \<Longrightarrow> \<not> lit_matches True CHR ''s'' c"
    by (rule digit_not_letter) simp_all
  have tail: "match_here True [Lit CHR ''s'', Eol] False t =
      (if map py_lower (chomp t) = ''s'' then Some [] else None)" for t
    using match_lits_eol [of "[CHR ''s'']" t] by simp
  show ?thesis
  proof (cases "dropWhile is_digit s")
    case Nil
    show ?thesis
      by (simp add: Nil pat_ms_def re_search_Bol grp_then_lit [OF ndm] form_ms_def
          takeWhile_chomp dropWhile_chomp)
  next
    case (Cons c r)
    show ?thesis
      by (cases "r = []")
        (auto simp: Cons pat_ms_def re_search_Bol grp_then_lit [OF ndm] grp_then_lit [OF nds] tail
          form_ms_def form1_def takeWhile_chomp dropWhile_chomp chomp_Cons lit_matches_def
          match_here_Lit [of True "CHR ''m''"] simp del: match_here_Lit)
  qed
qed


lemma digits_takeWhile: "list_all is_digit (takeWhile is_digit s)"
  by (induction s) auto

lemma py_int_takeWhile:
  "takeWhile is_digit s \<noteq> [] \<Longrightarrow>
     py_int (takeWhile is_digit s) = Inr (dec_val (takeWhile is_digit s))"
  by (simp add: py_int_def digits_takeWhile)

lemma scaled_eq:
  assumes "re_search pat s True =
     (if form1 suf (chomp s) then Some [takeWhile is_digit s] else None)"
  shows "scaled pat k s other =
     (if form1 suf (chomp s) then Inr (JInt (dec_val (takeWhile is_digit s) * k)) else other)"
proof (cases "form1 suf (chomp s)")
  case True
  then have "takeWhile is_digit s \<noteq> []"
    by (simp add: form1_def takeWhile_chomp)
  then show ?thesis
    using True
    by (simp add: scaled_def assms group_true_def group_def bind_err_def py_int_takeWhile)
next
  case False
  then show ?thesis by (simp add: scaled_def assms)
qed

lemma val2base_char:
  "val2base (JStr s) =
     (if form1 ''ki'' (chomp s) then Inr (JInt (dec_val (takeWhile is_digit s) * 1024))
      else if form1 ''mi'' (chomp s)
        then Inr (JInt (dec_val (takeWhile is_digit s) * (1024 * 1024)))
      else if form1 ''gi'' (chomp s)
        then Inr (JInt (dec_val (takeWhile is_digit s) * (1024 * 1024 * 1024)))
      else if form_ms (chomp s) then Inl TypeError
      else if form1 ''m'' (chomp s) then Inr (JInt (dec_val (takeWhile is_digit s) * 60))
      else Inr (JStr s))"
proof -
  have ms: "takeWhile is_digit s \<noteq> [] \<and> takeWhile is_digit (tl (dropWhile is_digit s)) \<noteq> []"
    if "form_ms (chomp s)"
  proof (cases "dropWhile is_digit s")
    case Nil
    with that show ?thesis
      by (simp add: form_ms_def dropWhile_chomp del: dropWhile_eq_Nil_conv)
  next
    case (Cons c r)
    with that show ?thesis
      by (cases "r = []")
        (auto simp: form_ms_def form1_def takeWhile_chomp dropWhile_chomp chomp_Cons
          split: if_splits)
  qed
  show ?thesis
    unfolding val2base_def json.case Let_def
      scaled_eq [OF search_Ki] scaled_eq [OF search_Mi] scaled_eq [OF search_Gi]
      scaled_eq [OF search_m] search_ms
    using ms
    by (simp add: group_true_def group_def bind_err_def py_int_takeWhile)
qed


section \<open>Facts about \<^verbatim>\<open>json2dict\<close>\<close>

lemma json_loads_error: "json_loads float_repr s = Inl e \<Longrightarrow> e = ValueError"
  by (auto simp: json_loads_def split: option.splits)

lemma json2dict_cases:
  "json2dict float_repr s =
     (case json_loads float_repr s of Inl e \<Rightarrow> Inr (JObj []) | Inr v \<Rightarrow> Inr v)"
  by (auto simp: json2dict_def dest: json_loads_error split: sum.splits pyerr.splits)
section \<open>Claims about \<^verbatim>\<open>val2base\<close>\<close>

text \<open>
  C2. The claim says that \<^verbatim>\<open>val2base\<close> maps a text of the form digits, \<^verbatim>\<open>m\<close>, digits,
  \<^verbatim>\<open>s\<close> to minutes times 60 plus seconds, so that \<^verbatim>\<open>5m0s\<close> gives 300. The code adds the
  second group to an int without converting it: on \<^verbatim>\<open>5m0s\<close> it raises TypeError.
\<close>

theorem C2_val2base_5m0s_raises: "val2base (JStr ''5m0s'') = Inl TypeError"
  by code_simp

text \<open>
  C5. \<^verbatim>\<open>val2base\<close> maps \<^verbatim>\<open>15Ki\<close> to 15360, \<^verbatim>\<open>1Mi\<close> to 1048576, \<^verbatim>\<open>1Gi\<close> to 1073741824 and
  \<^verbatim>\<open>5m\<close> to 300; for every non-empty run of digits \<open>ds\<close> it maps \<open>ds\<close> followed by
  \<^verbatim>\<open>Ki\<close>, \<^verbatim>\<open>Mi\<close>, \<^verbatim>\<open>Gi\<close>, \<^verbatim>\<open>m\<close> to the decimal value of \<open>ds\<close> times 1024, 1024 squared,
  1024 cubed, 60; and a string that none of the five patterns matches is returned
  unchanged, as are \<^verbatim>\<open>abc\<close> and the empty string.
\<close>

theorem C5_val2base_units:
  "val2base (JStr ''15Ki'') = Inr (JInt 15360) \<and>
   val2base (JStr ''1Mi'') = Inr (JInt 1048576) \<and>
   val2base (JStr ''1Gi'') = Inr (JInt 1073741824) \<and>
   val2base (JStr ''5m'') = Inr (JInt 300) \<and>
   val2base (JStr ''abc'') = Inr (JStr ''abc'') \<and>
   val2base (JStr '''') = Inr (JStr '''') \<and>
   (ds \<noteq> [] \<and> list_all is_digit ds \<longrightarrow>
      val2base (JStr (ds @ ''Ki'')) = Inr (JInt (dec_val ds * 1024)) \<and>
      val2base (JStr (ds @ ''Mi'')) = Inr (JInt (dec_val ds * (1024 * 1024))) \<and>
      val2base (JStr (ds @ ''Gi'')) = Inr (JInt (dec_val ds * (1024 * 1024 * 1024))) \<and>
      val2base (JStr (ds @ ''m'')) = Inr (JInt (dec_val ds * 60))) \<and>
   ((\<forall>p \<in> set patterns. re_search p s True = None) \<longrightarrow>
      val2base (JStr s) = Inr (JStr s))"
proof -
  have ex: "val2base (JStr ''15Ki'') = Inr (JInt 15360)"
    "val2base (JStr ''1Mi'') = Inr (JInt 1048576)"
    "val2base (JStr ''1Gi'') = Inr (JInt 1073741824)"
    "val2base (JStr ''5m'') = Inr (JInt 300)"
    "val2base (JStr ''abc'') = Inr (JStr ''abc'')"
    "val2base (JStr '''') = Inr (JStr '''')"
    by code_simp+
  have gen: "val2base (JStr (ds @ ''Ki'')) = Inr (JInt (dec_val ds * 1024)) \<and>
      val2base (JStr (ds @ ''Mi'')) = Inr (JInt (dec_val ds * (1024 * 1024))) \<and>
      val2base (JStr (ds @ ''Gi'')) = Inr (JInt (dec_val ds * (1024 * 1024 * 1024))) \<and>
      val2base (JStr (ds @ ''m'')) = Inr (JInt (dec_val ds * 60))"
    if ds: "ds \<noteq> []" "list_all is_digit ds"
  proof -
    have nd: "\<not> is_digit CHR ''K''" "\<not> is_digit CHR ''M''" "\<not> is_digit CHR ''G''"
      "\<not> is_digit CHR ''m''"
      by (simp_all add: is_digit_def)
    have tw: "takeWhile is_digit (ds @ c # r) = ds" "dropWhile is_digit (ds @ c # r) = c # r"
      if "\<not> is_digit c" for c r
      using ds(2) that by (simp_all add: list_all_iff takeWhile_append2 dropWhile_append2)
    have ch: "chomp (ds @ ''Ki'') = ds @ ''Ki''" "chomp (ds @ ''Mi'') = ds @ ''Mi''"
      "chomp (ds @ ''Gi'') = ds @ ''Gi''" "chomp (ds @ ''m'') = ds @ ''m''"
      by (simp_all add: chomp_def)
    show ?thesis
      using ds(1) by (simp add: val2base_char ch form1_def form_ms_def tw nd)
  qed
  have pass: "val2base (JStr s) = Inr (JStr s)"
    if "\<forall>p \<in> set patterns. re_search p s True = None"
    using that
    by (simp add: patterns_def val2base_char search_Ki search_Mi search_Gi search_ms search_m
        split: if_splits)
  from ex gen pass show ?thesis by blast
qed

text \<open>The theorem of C5 at the digits \<^verbatim>\<open>250\<close> and at the string \<^verbatim>\<open>1.5Gi\<close>, which no pattern matches.\<close>

theorem C5_val2base_units_witness:
  "val2base (JStr (''250'' @ ''m'')) = Inr (JInt (dec_val ''250'' * 60)) \<and>
   dec_val ''250'' = 250 \<and>
   val2base (JStr ''1.5Gi'') = Inr (JStr ''1.5Gi'')"
proof -
  have d: "''250'' \<noteq> [] \<and> list_all is_digit ''250''"
    by (simp add: is_digit_def)
  have n: "\<forall>p \<in> set patterns. re_search p ''1.5Gi'' True = None"
    by code_simp
  have v: "dec_val ''250'' = 250"
    by code_simp
  from C5_val2base_units [of "''250''" "''1.5Gi''"] d n v show ?thesis
    by blast
qed



section \<open>Claims about decoding and about failures of the renderers\<close>

text \<open>
  C1. The claim says that \<^verbatim>\<open>trans_node_metrics\<close> and \<^verbatim>\<open>trans_pod_metrics\<close> return
  exposition text on every string. They raise instead on a document whose item has no
  \<^verbatim>\<open>metadata\<close>: the default of \<^verbatim>\<open>node.get('metadata', [])\<close> is a list, and a list has no
  \<^verbatim>\<open>get\<close>. They also raise on \<^verbatim>\<open>null\<close>, which \<^verbatim>\<open>json2dict\<close> decodes to \<^verbatim>\<open>None\<close>, and on
  a usage value of the minutes-and-seconds form.
\<close>

theorem C1_renderers_raise:
  \<open>trans_node_metrics float_repr ''{"items":[{}]}'' = Inl AttributeError \<and>
   trans_pod_metrics float_repr ''{"items":[{}]}'' = Inl AttributeError \<and>
   trans_node_metrics float_repr ''null'' = Inl AttributeError \<and>
   trans_pod_metrics float_repr ''null'' = Inl AttributeError \<and>
   trans_node_metrics float_repr ''{"items":[{"metadata":{},"usage":{"cpu":"5m0s"}}]}''
     = Inl TypeError\<close>
  by code_simp

text \<open>
  C3. The claim says that \<^verbatim>\<open>json2dict\<close> never raises and that the empty text, \<^verbatim>\<open>{\<close>,
  \<^verbatim>\<open>not json\<close> and \<^verbatim>\<open>null\<close> decode to a document with no items. \<^verbatim>\<open>json2dict\<close> does
  return on every string, and the first three inputs give the empty dict, whose item
  sequence is empty; but \<^verbatim>\<open>null\<close> is valid JSON and decodes to \<^verbatim>\<open>None\<close>, which is not a
  dict: looking up its items raises AttributeError.
\<close>

theorem C3_json2dict_null:
  \<open>(\<exists>v. json2dict float_repr s = Inr v) \<and>
   json2dict float_repr ''null'' = Inr JNull \<and>
   doc_items JNull = Inl AttributeError \<and>
   json2dict float_repr '''' = Inr (JObj []) \<and>
   json2dict float_repr ''{'' = Inr (JObj []) \<and>
   json2dict float_repr ''not json'' = Inr (JObj []) \<and>
   doc_items (JObj []) = Inr []\<close>
proof -
  have total: "\<exists>v. json2dict float_repr s = Inr v"
    by (cases "json_loads float_repr s") (simp_all add: json2dict_cases)
  have ev: \<open>json2dict float_repr ''null'' = Inr JNull\<close>
    \<open>doc_items JNull = Inl AttributeError\<close>
    \<open>json2dict float_repr '''' = Inr (JObj [])\<close>
    \<open>json2dict float_repr ''{'' = Inr (JObj [])\<close>
    \<open>json2dict float_repr ''not json'' = Inr (JObj [])\<close>
    \<open>doc_items (JObj []) = Inr []\<close>
    by code_simp+
  from total ev show ?thesis by blast
qed

text \<open>
  C4. The claim says that a field absent at any level resolves to the empty string and
  never crashes. An item without \<^verbatim>\<open>metadata\<close> or without \<^verbatim>\<open>usage\<close> raises AttributeError
  (nodes, pods and containers alike), because the default of the outer \<^verbatim>\<open>get\<close> is a
  list. Fields absent inside \<^verbatim>\<open>metadata\<close> and \<^verbatim>\<open>usage\<close> do resolve to the empty string,
  and the empty usage string is rendered as the empty value: the last conjunct.
\<close>

theorem C4_missing_field_raises:
  \<open>trans_node_metrics float_repr ''{"items":[{"usage":{"cpu":"5m","memory":"1Ki"}}]}''
     = Inl AttributeError \<and>
   trans_node_metrics float_repr ''{"items":[{"metadata":{"name":"n1"}}]}''
     = Inl AttributeError \<and>
   trans_pod_metrics float_repr ''{"items":[{"containers":[]}]}'' = Inl AttributeError \<and>
   trans_pod_metrics float_repr ''{"items":[{"metadata":{},"containers":[{"name":"c1"}]}]}''
     = Inl AttributeError \<and>
   node_series (JObj [(''metadata'', JObj []), (''usage'', JObj [])]) =
     Inr (node_tpl ''cpu'' (JStr '''') (JStr '''') (JStr '''') (JStr '''') (JStr '''') (JStr ''''),
          node_tpl ''mem'' (JStr '''') (JStr '''') (JStr '''') (JStr '''') (JStr '''') (JStr ''''))\<close>
  by code_simp

text \<open>
  C10. \<^verbatim>\<open>json2dict\<close> returns what \<^verbatim>\<open>json.loads\<close> returns, whatever its type, and the
  empty dict exactly when \<^verbatim>\<open>json.loads\<close> raises ValueError (the only exception it
  raises): \<^verbatim>\<open>None\<close> for \<^verbatim>\<open>null\<close>, a list for \<^verbatim>\<open>[]\<close>, a number for \<^verbatim>\<open>123\<close>. So the result
  is a dict only when the text was a JSON object or did not parse.
\<close>

theorem C10_json2dict_fallback:
  \<open>(json_loads float_repr s = Inr v \<longrightarrow> json2dict float_repr s = Inr v) \<and>
   (json_loads float_repr s = Inl ValueError \<longrightarrow> json2dict float_repr s = Inr (JObj [])) \<and>
   (json_loads float_repr s = Inl ValueError \<or> (\<exists>w. json_loads float_repr s = Inr w)) \<and>
   (json2dict float_repr s = Inr (JObj kvs) \<longrightarrow>
      json_loads float_repr s = Inr (JObj kvs) \<or>
      (json_loads float_repr s = Inl ValueError \<and> kvs = [])) \<and>
   json2dict float_repr ''null'' = Inr JNull \<and>
   json2dict float_repr ''[]'' = Inr (JArr []) \<and>
   json2dict float_repr ''123'' = Inr (JInt 123)\<close>
proof -
  have ex: "json2dict float_repr ''null'' = Inr JNull"
    "json2dict float_repr ''[]'' = Inr (JArr [])"
    "json2dict float_repr ''123'' = Inr (JInt 123)"
    by code_simp+
  have gen: "json_loads float_repr s = Inr v \<longrightarrow> json2dict float_repr s = Inr v"
    "json_loads float_repr s = Inl ValueError \<longrightarrow> json2dict float_repr s = Inr (JObj [])"
    "json_loads float_repr s = Inl ValueError \<or> (\<exists>w. json_loads float_repr s = Inr w)"
    "json2dict float_repr s = Inr (JObj kvs) \<longrightarrow>
      json_loads float_repr s = Inr (JObj kvs) \<or>
      (json_loads float_repr s = Inl ValueError \<and> kvs = [])"
    using json_loads_error [of float_repr s]
    by (cases "json_loads float_repr s"; simp add: json2dict_cases)+
  from ex gen show ?thesis by blast
qed

text \<open>The theorem of C10 at a JSON object and at a text that does not parse.\<close>

theorem C10_json2dict_fallback_witness:
  \<open>json_loads (\<lambda>t. t) ''{"items":[]}'' = Inr (JObj [(''items'', JArr [])]) \<and>
   json2dict (\<lambda>t. t) ''{"items":[]}'' = Inr (JObj [(''items'', JArr [])]) \<and>
   json_loads (\<lambda>t. t) ''{"items":'' = Inl ValueError \<and>
   json2dict (\<lambda>t. t) ''{"items":'' = Inr (JObj [])\<close>
proof -
  have a: \<open>json_loads (\<lambda>t. t) ''{"items":[]}'' = Inr (JObj [(''items'', JArr [])])\<close>
    by code_simp
  have b: \<open>json_loads (\<lambda>t. t) ''{"items":'' = Inl ValueError\<close>
    by code_simp
  from C10_json2dict_fallback [of "\<lambda>t. t" \<open>''{"items":[]}''\<close> "JObj [(''items'', JArr [])]"] a
  have c: \<open>json2dict (\<lambda>t. t) ''{"items":[]}'' = Inr (JObj [(''items'', JArr [])])\<close>
    by blast
  from C10_json2dict_fallback [of "\<lambda>t. t" \<open>''{"items":''\<close>] b
  have d: \<open>json2dict (\<lambda>t. t) ''{"items":'' = Inr (JObj [])\<close>
    by blast
  from a b c d show ?thesis by blast
qed


end
